theory Spec2Isabelle
  imports Main
begin

section \<open>The model selector of \<^verbatim>\<open>sam_jax/models/load_model.py\<close>\<close>

text \<open>
  The file builds one of eight image-classification architectures and initialises it.
  Its own logic is the chain of comparisons on the architecture name, the default of
  the PRNG key, and the choice between two initialisation routines. Everything else is
  a call into the neural-network framework (flax, jax) or into the architecture
  modules (\<^verbatim>\<open>wide_resnet\<close>, \<^verbatim>\<open>wide_resnet_shakeshake\<close>, \<^verbatim>\<open>pyramidnet\<close>,
  \<^verbatim>\<open>vision_transformer\<close>), whose code is not part of the file. Those calls are
  parameters of the model: every theorem below holds for whatever the framework
  computes.
\<close>

subsection \<open>Data\<close>

text \<open>
  An exception is a value: \<^verbatim>\<open>ValueError(msg)\<close>, or any other exception class that a
  framework call raises (class name and message).
\<close>

datatype error = ValueError string | OtherError string string

text \<open>The four module classes that the file imports and names.\<close>

datatype module_class =
    WideResnet
  | WideResnetShakeShake
  | PyramidNetShakeDrop
  | VisionTransformer

text \<open>
  The Python values that the file passes as hyperparameters: integers, the tuple
  \<^verbatim>\<open>(16, 16)\<close>, the dict \<^verbatim>\<open>transformer\<close> and the \<^verbatim>\<open>ml_collections.ConfigDict\<close>
  \<^verbatim>\<open>patches\<close>. Dicts keep the order in which the source writes their keys.
\<close>

datatype pyval =
    PInt int
  | PTuple "pyval list"
  | PDict "(string \<times> pyval) list"
  | ConfigDict "(string \<times> pyval) list"

type_synonym kwargs = "(string \<times> pyval) list"

text \<open>
  A module as the file builds it: \<^verbatim>\<open>cls.partial(**kwargs)\<close> of the old \<^verbatim>\<open>flax.nn\<close>
  interface binds hyperparameters into a module description, and \<^verbatim>\<open>cls(**kwargs)\<close>
  of \<^verbatim>\<open>flax.linen\<close> constructs a module instance.
\<close>

datatype flax_module =
    Partial module_class kwargs
  | Instance module_class kwargs

datatype dtype = Float32

text \<open>
  The first component of the returned pair: \<^verbatim>\<open>flax.nn.Model(module, initial_params)\<close>
  on the old interface, the module instance itself on the new one.
\<close>

datatype 't model =
    Model flax_module 't
  | LinenModule flax_module

text \<open>
  The framework calls that the file makes, as parameters. \<open>'k\<close> is the framework's
  array type for PRNG keys, \<open>'x\<close> its type of input tensors, \<open>'t\<close> its type of
  parameter and state collections.
  \<^item> \<open>PRNGKey seed\<close> is \<^verbatim>\<open>jax.random.PRNGKey(seed)\<close>.
  \<^item> \<open>truth k\<close> is Python's truth value of the array \<open>k\<close> (its \<^verbatim>\<open>__bool__\<close>), which
    the statement \<^verbatim>\<open>if not prng_key:\<close> evaluates; it may raise.
  \<^item> \<open>ones shape\<close> is \<^verbatim>\<open>jnp.ones(shape)\<close>.
  \<^item> \<open>init_by_shape module rng prng_key specs\<close> is
    \<^verbatim>\<open>module.init_by_shape(prng_key, specs)\<close> run inside \<^verbatim>\<open>flax.nn.stateful()\<close> and
    \<^verbatim>\<open>flax.nn.stochastic(rng)\<close>: it gives the output, the initial parameters and the
    state collected by the \<^verbatim>\<open>stateful\<close> context, or raises.
  \<^item> \<open>init model rng x train\<close> is \<^verbatim>\<open>model.init(rng, x, train=train)\<close>.
  \<^item> \<open>type_str s\<close> is the text that an f-string prints for \<^verbatim>\<open>type(s)\<close>.
\<close>

record ('k, 'x, 't) framework =
  PRNGKey :: "int \<Rightarrow> 'k"
  truth :: "'k \<Rightarrow> error + bool"
  ones :: "int list \<Rightarrow> error + 'x"
  init_by_shape ::
    "flax_module \<Rightarrow> 'k \<Rightarrow> 'k \<Rightarrow> (int list \<times> dtype) list \<Rightarrow> error + ('t \<times> 't \<times> 't)"
  init :: "flax_module \<Rightarrow> 'k \<Rightarrow> 'x \<Rightarrow> bool \<Rightarrow> error + 't"
  type_str :: "'t \<Rightarrow> string"

text \<open>
  Standard output is the only state the file touches itself: a list of printed lines,
  passed in and returned with the result.
\<close>

type_synonym stdout = "string list"

type_synonym 't outcome = "(error + ('t model \<times> 't)) \<times> stdout"

subsection \<open>The source\<close>

definition AVAILABLE_MODEL_NAMES :: "string list" where
  "AVAILABLE_MODEL_NAMES =
    [''WideResnet28x10'',
     ''WideResnet28x6_ShakeShake'',
     ''Pyramid_ShakeDrop'',
     ''VisionTransformer'',
     ''VisionTransformer_mini'',
     ''WideResnet_mini'',
     ''WideResnet_ShakeShake_mini'',
     ''Pyramid_ShakeDrop_mini'']"

text \<open>\<^verbatim>\<open>create_image_model\<close> (lines 44 to 67).\<close>

definition create_image_model ::
  "('k, 'x, 't) framework \<Rightarrow> 'k \<Rightarrow> int \<Rightarrow> int \<Rightarrow> flax_module \<Rightarrow> int \<Rightarrow> stdout \<Rightarrow> 't outcome"
where
  "create_image_model fw prng_key batch_size image_size module num_channels out =
    (let input_shape = [batch_size, image_size, image_size, num_channels] in
     case init_by_shape fw module (PRNGKey fw 0) prng_key [(input_shape, Float32)] of
       Inl e \<Rightarrow> (Inl e, out)
     | Inr (_, initial_params, init_state) \<Rightarrow>
         (Inr (Model module initial_params, init_state),
          out @ [''type(init_state): '' @ type_str fw init_state]))"

text \<open>
  \<^verbatim>\<open>create_vit_image_model\<close> (lines 70 to 90). The parameter \<open>prng_key\<close> is
  accepted and not read: the source hands \<^verbatim>\<open>jax.random.PRNGKey(0)\<close> to \<^verbatim>\<open>model.init\<close>.
\<close>

definition create_vit_image_model ::
  "('k, 'x, 't) framework \<Rightarrow> 'k \<Rightarrow> int \<Rightarrow> int \<Rightarrow> flax_module \<Rightarrow> int \<Rightarrow> stdout \<Rightarrow> 't outcome"
where
  "create_vit_image_model fw prng_key batch_size image_size model num_channels out =
    (let input_shape = [batch_size, image_size, image_size, num_channels] in
     case ones fw input_shape of
       Inl e \<Rightarrow> (Inl e, out)
     | Inr x \<Rightarrow>
         (case init fw model (PRNGKey fw 0) x False of
            Inl e \<Rightarrow> (Inl e, out)
          | Inr init_state \<Rightarrow>
              (Inr (LinenModule model, init_state),
               out @ [''type(init_state): '' @ type_str fw init_state])))"

text \<open>
  The chain of comparisons at the head of \<^verbatim>\<open>get_model\<close> (lines 118 to 158): the
  module built for a name, or the \<^verbatim>\<open>ValueError\<close> of the last branch.
\<close>

definition select_module :: "string \<Rightarrow> int \<Rightarrow> error + flax_module" where
  "select_module model_name num_classes =
    (if model_name = ''WideResnet28x10'' then
       Inr (Partial WideResnet
         [(''blocks_per_group'', PInt 4),
          (''channel_multiplier'', PInt 10),
          (''num_outputs'', PInt num_classes)])
     else if model_name = ''WideResnet28x6_ShakeShake'' then
       Inr (Partial WideResnetShakeShake
         [(''blocks_per_group'', PInt 4),
          (''channel_multiplier'', PInt 6),
          (''num_outputs'', PInt num_classes)])
     else if model_name = ''Pyramid_ShakeDrop'' then
       Inr (Partial PyramidNetShakeDrop [(''num_outputs'', PInt num_classes)])
     else if model_name = ''VisionTransformer'' then
       (let transformer =
              PDict [(''num_layers'', PInt 12), (''mlp_dim'', PInt 3072), (''num_heads'', PInt 12)];
            patches = ConfigDict [(''size'', PTuple [PInt 16, PInt 16])]
        in Inr (Instance VisionTransformer
             [(''num_classes'', PInt num_classes),
              (''hidden_size'', PInt 768),
              (''transformer'', transformer),
              (''patches'', patches)]))
     else if model_name = ''VisionTransformer_mini'' then
       (let transformer =
              PDict [(''num_layers'', PInt 2), (''mlp_dim'', PInt 3072), (''num_heads'', PInt 12)];
            patches = ConfigDict [(''size'', PTuple [PInt 16, PInt 16])]
        in Inr (Instance VisionTransformer
             [(''num_classes'', PInt num_classes),
              (''hidden_size'', PInt 768),
              (''transformer'', transformer),
              (''patches'', patches)]))
     else if model_name = ''WideResnet_mini'' then
       Inr (Partial WideResnet
         [(''blocks_per_group'', PInt 2),
          (''channel_multiplier'', PInt 1),
          (''num_outputs'', PInt num_classes)])
     else if model_name = ''WideResnet_ShakeShake_mini'' then
       Inr (Partial WideResnetShakeShake
         [(''blocks_per_group'', PInt 2),
          (''channel_multiplier'', PInt 1),
          (''num_outputs'', PInt num_classes)])
     else if model_name = ''Pyramid_ShakeDrop_mini'' then
       Inr (Partial PyramidNetShakeDrop
         [(''num_outputs'', PInt num_classes), (''pyramid_depth'', PInt 11)])
     else Inl (ValueError ''Unrecognized model name.''))"

text \<open>
  The default of the key (lines 159 and 160): \<^verbatim>\<open>if not prng_key: prng_key =
  random.PRNGKey(0)\<close>. \<^verbatim>\<open>not None\<close> is true; on an array, \<^verbatim>\<open>not\<close> asks the array for
  its truth value, which the framework computes or refuses with an exception.
\<close>

definition default_prng_key :: "('k, 'x, 't) framework \<Rightarrow> 'k option \<Rightarrow> error + 'k" where
  "default_prng_key fw prng_key =
    (case prng_key of
       None \<Rightarrow> Inr (PRNGKey fw 0)
     | Some k \<Rightarrow>
         (case truth fw k of
            Inl e \<Rightarrow> Inl e
          | Inr t \<Rightarrow> Inr (if \<not> t then PRNGKey fw 0 else k)))"

text \<open>
  \<^verbatim>\<open>get_model\<close> (lines 93 to 168): the three statements in the order of the source.
  A caller that leaves \<open>num_channels\<close> out passes 3.
\<close>

definition get_model ::
  "('k, 'x, 't) framework \<Rightarrow> string \<Rightarrow> int \<Rightarrow> int \<Rightarrow> int \<Rightarrow> int \<Rightarrow> 'k option \<Rightarrow> stdout \<Rightarrow> 't outcome"
where
  "get_model fw model_name batch_size image_size num_classes num_channels prng_key out =
    (case select_module model_name num_classes of
       Inl e \<Rightarrow> (Inl e, out)
     | Inr module \<Rightarrow>
         (case default_prng_key fw prng_key of
            Inl e \<Rightarrow> (Inl e, out)
          | Inr key \<Rightarrow>
              if model_name \<in> set [''VisionTransformer'', ''VisionTransformer_mini'']
              then create_vit_image_model fw key batch_size image_size module num_channels out
              else create_image_model fw key batch_size image_size module num_channels out))"

subsection \<open>A framework to run the model\<close>

text \<open>
  A small framework to run the model on concrete inputs. A key is the list of its
  unsigned 32-bit entries, and \<^verbatim>\<open>PRNGKey(seed)\<close> is the high and the low half of the
  seed. The truth value of an array is the one numpy defines: an empty array is false,
  an array of one element is true when that element is not zero, and a longer array
  has no truth value (\<^verbatim>\<open>ValueError\<close>). An all-ones tensor is known by its shape. The
  initialisers refuse a dimension that is not positive and otherwise return the numbers
  they were given, so that a result shows which key and which shape reached them.
\<close>

definition array_truth :: "nat list \<Rightarrow> error + bool" where
  "array_truth k =
    (case k of
       [] \<Rightarrow> Inr False
     | [v] \<Rightarrow> Inr (v \<noteq> 0)
     | _ \<Rightarrow> Inl (ValueError
         ''The truth value of an array with more than one element is ambiguous. Use a.any() or a.all()''))"

definition sample_framework :: "(nat list, int list, int list) framework" where
  "sample_framework =
    \<lparr> PRNGKey = (\<lambda>seed. [nat (seed div 4294967296 mod 4294967296), nat (seed mod 4294967296)]),
      truth = array_truth,
      ones = (\<lambda>shape. if list_all (\<lambda>d. 0 \<le> d) shape then Inr shape
                else Inl (ValueError ''negative dimensions are not allowed'')),
      init_by_shape = (\<lambda>module rng prng_key specs.
         if list_all (\<lambda>(shape, _). list_all (\<lambda>d. 0 < d) shape) specs
         then Inr ([], map int prng_key @ concat (map fst specs), map int rng)
         else Inl (ValueError ''invalid input shape'')),
      init = (\<lambda>model rng x train.
         if list_all (\<lambda>d. 0 < d) x then Inr (map int rng @ x)
         else Inl (ValueError ''invalid input shape'')),
      type_str = (\<lambda>_. ''<class Collection>'') \<rparr>"

section \<open>Properties\<close>

subsection \<open>The three statements of \<^verbatim>\<open>get_model\<close>, one at a time\<close>

lemma select_module_unknown:
  "model_name \<notin> set AVAILABLE_MODEL_NAMES \<Longrightarrow>
   select_module model_name num_classes = Inl (ValueError ''Unrecognized model name.'')"
  by (simp add: AVAILABLE_MODEL_NAMES_def select_module_def)

lemma default_prng_key_None: "default_prng_key fw None = Inr (PRNGKey fw 0)"
  by (simp add: default_prng_key_def)

lemma default_prng_key_falsy:
  "truth fw k = Inr False \<Longrightarrow> default_prng_key fw (Some k) = Inr (PRNGKey fw 0)"
  by (simp add: default_prng_key_def)

lemma default_prng_key_truthy:
  "truth fw k = Inr True \<Longrightarrow> default_prng_key fw (Some k) = Inr k"
  by (simp add: default_prng_key_def)

lemma select_module_supported:
  "model_name \<in> set AVAILABLE_MODEL_NAMES \<Longrightarrow> \<exists>module. select_module model_name num_classes = Inr module"
  by (auto simp add: AVAILABLE_MODEL_NAMES_def select_module_def)

lemma get_model_keyed:
  "select_module model_name num_classes = Inr module \<Longrightarrow>
   default_prng_key fw prng_key = Inr key \<Longrightarrow>
   get_model fw model_name batch_size image_size num_classes num_channels prng_key out =
     (if model_name = ''VisionTransformer'' \<or> model_name = ''VisionTransformer_mini''
      then create_vit_image_model fw key batch_size image_size module num_channels out
      else create_image_model fw key batch_size image_size module num_channels out)"
  by (simp add: get_model_def)

lemma get_model_key_error:
  "select_module model_name num_classes = Inr module \<Longrightarrow>
   truth fw k = Inl e \<Longrightarrow>
   get_model fw model_name batch_size image_size num_classes num_channels (Some k) out = (Inl e, out)"
  by (simp add: get_model_def default_prng_key_def)

lemma select_module_vit:
  "model_name = ''VisionTransformer'' \<or> model_name = ''VisionTransformer_mini'' \<Longrightarrow>
   \<exists>kw. select_module model_name num_classes = Inr (Instance VisionTransformer kw)"
  by (auto simp add: select_module_def)

lemma select_module_legacy:
  "model_name \<in> set AVAILABLE_MODEL_NAMES \<Longrightarrow>
   \<not> (model_name = ''VisionTransformer'' \<or> model_name = ''VisionTransformer_mini'') \<Longrightarrow>
   \<exists>cls kw. select_module model_name num_classes = Inr (Partial cls kw)"
  by (auto simp add: AVAILABLE_MODEL_NAMES_def select_module_def)

lemma create_image_model_out:
  "create_image_model fw key b i m ch out = (Inr (md, s), out') \<Longrightarrow>
   out' = out @ [''type(init_state): '' @ type_str fw s]"
  by (auto simp add: create_image_model_def split: sum.splits prod.splits)

lemma create_vit_image_model_out:
  "create_vit_image_model fw key b i m ch out = (Inr (md, s), out') \<Longrightarrow>
   out' = out @ [''type(init_state): '' @ type_str fw s]"
  by (auto simp add: create_vit_image_model_def split: sum.splits)

lemma create_image_model_fst:
  "fst (create_image_model fw key b i m ch out1) = fst (create_image_model fw key b i m ch out2)"
  by (simp add: create_image_model_def split: sum.splits prod.splits)

lemma create_vit_image_model_fst:
  "fst (create_vit_image_model fw key b i m ch out1) = fst (create_vit_image_model fw key b i m ch out2)"
  by (simp add: create_vit_image_model_def split: sum.splits)


lemma get_model_fst:
  "fst (get_model fw n b i c ch k out1) = fst (get_model fw n b i c ch k out2)"
  using create_image_model_fst [of fw _ b i _ ch out1 out2]
        create_vit_image_model_fst [of fw _ b i _ ch out1 out2]
  by (simp add: get_model_def split: sum.splits)

lemma get_model_out:
  "get_model fw n b i c ch k out = (Inr (md, s), out') \<Longrightarrow>
   out' = out @ [''type(init_state): '' @ type_str fw s]"
  by (auto simp add: get_model_def split: sum.splits if_splits
      dest: create_image_model_out create_vit_image_model_out)

subsection \<open>Names outside the supported set\<close>

text \<open>
  C1. For every name that is not one of the eight in \<^verbatim>\<open>_AVAILABLE_MODEL_NAMES\<close>,
  \<^verbatim>\<open>get_model\<close> raises \<^verbatim>\<open>ValueError('Unrecognized model name.')\<close>, whatever the
  other arguments are: it returns no model and no state, it prints nothing, and the
  framework is not called (the key is not even tested).
\<close>

theorem get_model_unrecognized_name:
  "model_name \<notin> set AVAILABLE_MODEL_NAMES \<Longrightarrow>
   get_model fw model_name batch_size image_size num_classes num_channels prng_key out =
     (Inl (ValueError ''Unrecognized model name.''), out)"
  by (simp add: get_model_def select_module_unknown)

theorem get_model_unrecognized_name_witness:
  "''ResNet50'' \<notin> set AVAILABLE_MODEL_NAMES \<and>
   get_model sample_framework ''ResNet50'' 2 32 10 3 (Some [0, 42]) [] =
     (Inl (ValueError ''Unrecognized model name.''), [])"
  using get_model_unrecognized_name [of "''ResNet50''" sample_framework 2 32 10 3 "Some [0, 42]" "[]"]
  by (simp add: AVAILABLE_MODEL_NAMES_def)

subsection \<open>Names of the supported set\<close>

text \<open>
  C2. A call with one of the eight names and a shape that the framework accepts is to
  return a model and a state. It does so without a key. With a key it does not, whenever
  the array that is the key has no truth value: line 159 asks for it (\<^verbatim>\<open>if not
  prng_key:\<close>), the exception of the array is the outcome of the call, and no initialiser
  runs. A key made by \<^verbatim>\<open>PRNGKey\<close> has two entries, and an array of two entries has no
  truth value.
\<close>

theorem get_model_explicit_key_raises:
  assumes name: "model_name \<in> set AVAILABLE_MODEL_NAMES"
    and refused: "truth fw k = Inl e"
  shows "get_model fw model_name batch_size image_size num_classes num_channels (Some k) out =
    (Inl e, out)"
proof -
  obtain module where "select_module model_name num_classes = Inr module"
    using select_module_supported [OF name] by blast
  then show ?thesis
    using refused by (rule get_model_key_error)
qed

theorem get_model_explicit_key_raises_witness:
  "''WideResnet_mini'' \<in> set AVAILABLE_MODEL_NAMES \<and>
   PRNGKey sample_framework 1 = [0, 1] \<and>
   truth sample_framework (PRNGKey sample_framework 1) =
     Inl (ValueError
       ''The truth value of an array with more than one element is ambiguous. Use a.any() or a.all()'') \<and>
   get_model sample_framework ''WideResnet_mini'' 2 32 10 3 (Some (PRNGKey sample_framework 1)) [] =
     (Inl (ValueError
        ''The truth value of an array with more than one element is ambiguous. Use a.any() or a.all()''),
      []) \<and>
   get_model sample_framework ''WideResnet_mini'' 2 32 10 3 None [] =
     (Inr (Model (Partial WideResnet
                   [(''blocks_per_group'', PInt 2), (''channel_multiplier'', PInt 1),
                    (''num_outputs'', PInt 10)])
             [0, 0, 2, 32, 32, 3],
           [0, 0]),
      [''type(init_state): <class Collection>''])"
proof -
  have name: "''WideResnet_mini'' \<in> set AVAILABLE_MODEL_NAMES"
    by (simp add: AVAILABLE_MODEL_NAMES_def)
  have k: "PRNGKey sample_framework 1 = [0, 1]"
    by (simp add: sample_framework_def)
  have refused: "truth sample_framework (PRNGKey sample_framework 1) =
     Inl (ValueError
       ''The truth value of an array with more than one element is ambiguous. Use a.any() or a.all()'')"
    by (simp add: sample_framework_def array_truth_def)
  have no_key: "get_model sample_framework ''WideResnet_mini'' 2 32 10 3 None [] =
     (Inr (Model (Partial WideResnet
                   [(''blocks_per_group'', PInt 2), (''channel_multiplier'', PInt 1),
                    (''num_outputs'', PInt 10)])
             [0, 0, 2, 32, 32, 3],
           [0, 0]),
      [''type(init_state): <class Collection>''])"
    by (simp add: get_model_def select_module_def default_prng_key_def create_image_model_def
        sample_framework_def)
  show ?thesis
    using name k refused no_key
      get_model_explicit_key_raises [OF name refused, of 2 32 10 3 "[]"]
    by simp
qed

text \<open>
  C3. Among the eight names, \<^verbatim>\<open>'VisionTransformer'\<close> and \<^verbatim>\<open>'VisionTransformer_mini'\<close>, and
  only they, take the new protocol: the module is an instance of \<^verbatim>\<open>VisionTransformer\<close>,
  and the result is that of \<^verbatim>\<open>init\<close> on the all-ones tensor of the input shape, with
  \<^verbatim>\<open>train=False\<close>. The other six take the old protocol: the module is a class with its
  hyperparameters bound by \<^verbatim>\<open>partial\<close>, and the result is that of \<^verbatim>\<open>init_by_shape\<close> on
  the key and the input shape, which gives the parameters of the model and, apart from
  them, the initialisation state.
\<close>

theorem get_model_dispatch:
  assumes name: "model_name \<in> set AVAILABLE_MODEL_NAMES"
    and key: "default_prng_key fw prng_key = Inr key"
  shows
    "(model_name = ''VisionTransformer'' \<or> model_name = ''VisionTransformer_mini'' \<longrightarrow>
        (\<exists>kw. select_module model_name num_classes = Inr (Instance VisionTransformer kw) \<and>
           fst (get_model fw model_name batch_size image_size num_classes num_channels prng_key out) =
           (case ones fw [batch_size, image_size, image_size, num_channels] of
              Inl e \<Rightarrow> Inl e
            | Inr x \<Rightarrow>
                (case init fw (Instance VisionTransformer kw) (PRNGKey fw 0) x False of
                   Inl e \<Rightarrow> Inl e
                 | Inr init_state \<Rightarrow>
                     Inr (LinenModule (Instance VisionTransformer kw), init_state))))) \<and>
     (\<not> (model_name = ''VisionTransformer'' \<or> model_name = ''VisionTransformer_mini'') \<longrightarrow>
        (\<exists>cls kw. select_module model_name num_classes = Inr (Partial cls kw) \<and>
           fst (get_model fw model_name batch_size image_size num_classes num_channels prng_key out) =
           (case init_by_shape fw (Partial cls kw) (PRNGKey fw 0) key
                   [([batch_size, image_size, image_size, num_channels], Float32)] of
              Inl e \<Rightarrow> Inl e
            | Inr (_, initial_params, init_state) \<Rightarrow>
                Inr (Model (Partial cls kw) initial_params, init_state))))"
  (is "(?vit \<longrightarrow> (\<exists>kw. ?modern kw)) \<and> (\<not> ?vit \<longrightarrow> (\<exists>cls kw. ?legacy cls kw))")
proof (intro conjI impI)
  assume vit: ?vit
  then obtain kw where m: "select_module model_name num_classes = Inr (Instance VisionTransformer kw)"
    using select_module_vit by blast
  have "?modern kw"
    using vit m by (simp add: get_model_keyed [OF m key] create_vit_image_model_def split: sum.splits)
  then show "\<exists>kw. ?modern kw" ..
next
  assume leg: "\<not> ?vit"
  then obtain cls kw where m: "select_module model_name num_classes = Inr (Partial cls kw)"
    using select_module_legacy [OF name] by blast
  have "?legacy cls kw"
    using leg m
    by (simp add: get_model_keyed [OF m key] create_image_model_def split: sum.splits prod.splits)
  then show "\<exists>cls kw. ?legacy cls kw" by blast
qed

theorem get_model_dispatch_witness:
  "''VisionTransformer_mini'' \<in> set AVAILABLE_MODEL_NAMES \<and>
   ''WideResnet28x6_ShakeShake'' \<in> set AVAILABLE_MODEL_NAMES \<and>
   default_prng_key sample_framework None = Inr [0, 0] \<and>
   fst (get_model sample_framework ''VisionTransformer_mini'' 2 32 10 3 None []) =
     Inr (LinenModule (Instance VisionTransformer
            [(''num_classes'', PInt 10), (''hidden_size'', PInt 768),
             (''transformer'',
              PDict [(''num_layers'', PInt 2), (''mlp_dim'', PInt 3072), (''num_heads'', PInt 12)]),
             (''patches'', ConfigDict [(''size'', PTuple [PInt 16, PInt 16])])]),
          [0, 0, 2, 32, 32, 3]) \<and>
   fst (get_model sample_framework ''WideResnet28x6_ShakeShake'' 2 32 10 3 None []) =
     Inr (Model (Partial WideResnetShakeShake
            [(''blocks_per_group'', PInt 4), (''channel_multiplier'', PInt 6),
             (''num_outputs'', PInt 10)])
          [0, 0, 2, 32, 32, 3],
          [0, 0])"
proof -
  have n1: "''VisionTransformer_mini'' \<in> set AVAILABLE_MODEL_NAMES"
    and n2: "''WideResnet28x6_ShakeShake'' \<in> set AVAILABLE_MODEL_NAMES"
    by (simp_all add: AVAILABLE_MODEL_NAMES_def)
  have key: "default_prng_key sample_framework None = Inr [0, 0]"
    by (simp add: default_prng_key_def sample_framework_def)
  show ?thesis
    using n1 n2 key
      get_model_dispatch [OF n1 key, of 10 2 32 3 "[]"]
      get_model_dispatch [OF n2 key, of 10 2 32 3 "[]"]
    by (simp add: select_module_def sample_framework_def)
qed

subsection \<open>Seeds\<close>



text \<open>
  C9. The test on the key is a test of its truth value. A key that the caller supplies
  and whose truth value is false is replaced by \<^verbatim>\<open>PRNGKey(0)\<close>: the call returns what
  the call without a key returns.
\<close>

theorem get_model_falsy_key_discarded:
  assumes "truth fw k = Inr False"
  shows "default_prng_key fw (Some k) = Inr (PRNGKey fw 0) \<and>
    get_model fw model_name batch_size image_size num_classes num_channels (Some k) out =
    get_model fw model_name batch_size image_size num_classes num_channels None out"
  by (simp add: get_model_def default_prng_key_falsy [OF assms] default_prng_key_None
      split: sum.splits)

theorem get_model_falsy_key_discarded_witness:
  "truth sample_framework [0] = Inr False \<and>
   [0] \<noteq> PRNGKey sample_framework 0 \<and>
   default_prng_key sample_framework (Some [0]) = Inr (PRNGKey sample_framework 0) \<and>
   get_model sample_framework ''WideResnet_mini'' 2 32 10 3 (Some [0]) [] =
   get_model sample_framework ''WideResnet_mini'' 2 32 10 3 None []"
proof -
  have t: "truth sample_framework [0] = Inr False"
    by (simp add: sample_framework_def array_truth_def)
  have d: "[0] \<noteq> PRNGKey sample_framework 0"
    by (simp add: sample_framework_def)
  show ?thesis
    using t d get_model_falsy_key_discarded [OF t, of "''WideResnet_mini''" 2 32 10 3 "[]"]
    by simp
qed



subsection \<open>Hyperparameters\<close>

text \<open>
  C6. Each of the eight names fixes the module class and its hyperparameters: the
  keyword arguments are constants of the source, but for the number of outputs, which is
  \<open>num_classes\<close>. The batch size, the image size and the number of channels reach the
  creation routine only; the key reaches it when it passes the test on its truth value.
\<close>

theorem get_model_hyperparameters:
  assumes key: "default_prng_key fw prng_key = Inr key"
  shows
    "get_model fw ''WideResnet28x10'' batch_size image_size num_classes num_channels prng_key out =
       create_image_model fw key batch_size image_size
         (Partial WideResnet
           [(''blocks_per_group'', PInt 4), (''channel_multiplier'', PInt 10),
            (''num_outputs'', PInt num_classes)])
         num_channels out \<and>
     get_model fw ''WideResnet28x6_ShakeShake'' batch_size image_size num_classes num_channels prng_key out =
       create_image_model fw key batch_size image_size
         (Partial WideResnetShakeShake
           [(''blocks_per_group'', PInt 4), (''channel_multiplier'', PInt 6),
            (''num_outputs'', PInt num_classes)])
         num_channels out \<and>
     get_model fw ''Pyramid_ShakeDrop'' batch_size image_size num_classes num_channels prng_key out =
       create_image_model fw key batch_size image_size
         (Partial PyramidNetShakeDrop [(''num_outputs'', PInt num_classes)])
         num_channels out \<and>
     get_model fw ''VisionTransformer'' batch_size image_size num_classes num_channels prng_key out =
       create_vit_image_model fw key batch_size image_size
         (Instance VisionTransformer
           [(''num_classes'', PInt num_classes), (''hidden_size'', PInt 768),
            (''transformer'',
             PDict [(''num_layers'', PInt 12), (''mlp_dim'', PInt 3072), (''num_heads'', PInt 12)]),
            (''patches'', ConfigDict [(''size'', PTuple [PInt 16, PInt 16])])])
         num_channels out \<and>
     get_model fw ''VisionTransformer_mini'' batch_size image_size num_classes num_channels prng_key out =
       create_vit_image_model fw key batch_size image_size
         (Instance VisionTransformer
           [(''num_classes'', PInt num_classes), (''hidden_size'', PInt 768),
            (''transformer'',
             PDict [(''num_layers'', PInt 2), (''mlp_dim'', PInt 3072), (''num_heads'', PInt 12)]),
            (''patches'', ConfigDict [(''size'', PTuple [PInt 16, PInt 16])])])
         num_channels out \<and>
     get_model fw ''WideResnet_mini'' batch_size image_size num_classes num_channels prng_key out =
       create_image_model fw key batch_size image_size
         (Partial WideResnet
           [(''blocks_per_group'', PInt 2), (''channel_multiplier'', PInt 1),
            (''num_outputs'', PInt num_classes)])
         num_channels out \<and>
     get_model fw ''WideResnet_ShakeShake_mini'' batch_size image_size num_classes num_channels prng_key out =
       create_image_model fw key batch_size image_size
         (Partial WideResnetShakeShake
           [(''blocks_per_group'', PInt 2), (''channel_multiplier'', PInt 1),
            (''num_outputs'', PInt num_classes)])
         num_channels out \<and>
     get_model fw ''Pyramid_ShakeDrop_mini'' batch_size image_size num_classes num_channels prng_key out =
       create_image_model fw key batch_size image_size
         (Partial PyramidNetShakeDrop
           [(''num_outputs'', PInt num_classes), (''pyramid_depth'', PInt 11)])
         num_channels out"
  by (intro conjI) (simp_all add: get_model_def select_module_def key)

theorem get_model_hyperparameters_witness:
  "default_prng_key sample_framework None = Inr [0, 0] \<and>
   get_model sample_framework ''Pyramid_ShakeDrop_mini'' 4 32 10 3 None [] =
     (Inr (Model (Partial PyramidNetShakeDrop
                   [(''num_outputs'', PInt 10), (''pyramid_depth'', PInt 11)])
             [0, 0, 4, 32, 32, 3],
           [0, 0]),
      [''type(init_state): <class Collection>'']) \<and>
   get_model sample_framework ''VisionTransformer'' 4 224 1000 3 None [] =
     (Inr (LinenModule (Instance VisionTransformer
             [(''num_classes'', PInt 1000), (''hidden_size'', PInt 768),
              (''transformer'',
               PDict [(''num_layers'', PInt 12), (''mlp_dim'', PInt 3072), (''num_heads'', PInt 12)]),
              (''patches'', ConfigDict [(''size'', PTuple [PInt 16, PInt 16])])]),
           [0, 0, 4, 224, 224, 3]),
      [''type(init_state): <class Collection>''])"
proof -
  have key: "default_prng_key sample_framework None = Inr [0, 0]"
    by (simp add: default_prng_key_def sample_framework_def)
  show ?thesis
    using key
      get_model_hyperparameters [OF key, of 4 32 10 3 "[]"]
      get_model_hyperparameters [OF key, of 4 224 1000 3 "[]"]
    by (simp add: create_image_model_def create_vit_image_model_def sample_framework_def)
qed

text \<open>
  C7. A call with the name \<^verbatim>\<open>'WideResnet_mini'\<close> that returns gives a model of the wide
  residual network with \<^verbatim>\<open>blocks_per_group=2\<close>, \<^verbatim>\<open>channel_multiplier=1\<close> and
  \<^verbatim>\<open>num_outputs=num_classes\<close>, whose parameters and state are the ones that
  \<^verbatim>\<open>init_by_shape\<close> gives for this configuration at the input shape.
\<close>

theorem wide_resnet_mini_configuration:
  assumes "get_model fw ''WideResnet_mini'' batch_size image_size num_classes num_channels prng_key out =
      (Inr (model, init_state), out')"
  shows "\<exists>key output initial_params.
      default_prng_key fw prng_key = Inr key \<and>
      init_by_shape fw
        (Partial WideResnet
          [(''blocks_per_group'', PInt 2), (''channel_multiplier'', PInt 1),
           (''num_outputs'', PInt num_classes)])
        (PRNGKey fw 0) key [([batch_size, image_size, image_size, num_channels], Float32)] =
        Inr (output, initial_params, init_state) \<and>
      model =
        Model (Partial WideResnet
          [(''blocks_per_group'', PInt 2), (''channel_multiplier'', PInt 1),
           (''num_outputs'', PInt num_classes)])
          initial_params"
  using assms
  by (auto simp add: get_model_def select_module_def create_image_model_def
      split: sum.splits prod.splits)

theorem wide_resnet_mini_configuration_witness:
  "get_model sample_framework ''WideResnet_mini'' 2 32 10 3 None [] =
     (Inr (Model (Partial WideResnet
                   [(''blocks_per_group'', PInt 2), (''channel_multiplier'', PInt 1),
                    (''num_outputs'', PInt 10)])
             [0, 0, 2, 32, 32, 3],
           [0, 0]),
      [''type(init_state): <class Collection>'']) \<and>
   (\<exists>key output initial_params.
      default_prng_key sample_framework None = Inr key \<and>
      init_by_shape sample_framework
        (Partial WideResnet
          [(''blocks_per_group'', PInt 2), (''channel_multiplier'', PInt 1),
           (''num_outputs'', PInt 10)])
        (PRNGKey sample_framework 0) key [([2, 32, 32, 3], Float32)] =
        Inr (output, initial_params, [0, 0]) \<and>
      Model (Partial WideResnet
                   [(''blocks_per_group'', PInt 2), (''channel_multiplier'', PInt 1),
                    (''num_outputs'', PInt 10)])
             [0, 0, 2, 32, 32, 3] =
        Model (Partial WideResnet
          [(''blocks_per_group'', PInt 2), (''channel_multiplier'', PInt 1),
           (''num_outputs'', PInt 10)])
          initial_params)"
proof -
  have run: "get_model sample_framework ''WideResnet_mini'' 2 32 10 3 None [] =
     (Inr (Model (Partial WideResnet
                   [(''blocks_per_group'', PInt 2), (''channel_multiplier'', PInt 1),
                    (''num_outputs'', PInt 10)])
             [0, 0, 2, 32, 32, 3],
           [0, 0]),
      [''type(init_state): <class Collection>''])"
    by (simp add: get_model_def select_module_def default_prng_key_def create_image_model_def
        sample_framework_def)
  show ?thesis
    using run wide_resnet_mini_configuration [OF run] by simp
qed

subsection \<open>Output\<close>

text \<open>
  C8. A call that returns has printed one line, after what was printed before: the text
  \<^verbatim>\<open>type(init_state): \<close> followed by the type of the state it returns. What it returns does
  not depend on the earlier output, the only state that a call leaves behind.
\<close>

theorem get_model_prints_once:
  assumes "get_model fw model_name batch_size image_size num_classes num_channels prng_key out =
      (Inr (model, init_state), out')"
  shows "out' = out @ [''type(init_state): '' @ type_str fw init_state] \<and>
    fst (get_model fw model_name batch_size image_size num_classes num_channels prng_key out2) =
      Inr (model, init_state)"
proof
  show "out' = out @ [''type(init_state): '' @ type_str fw init_state]"
    using assms by (rule get_model_out)
  show "fst (get_model fw model_name batch_size image_size num_classes num_channels prng_key out2) =
      Inr (model, init_state)"
    using assms get_model_fst [of fw model_name batch_size image_size num_classes num_channels prng_key out2 out]
    by simp
qed

theorem get_model_prints_once_witness:
  "get_model sample_framework ''VisionTransformer_mini'' 2 32 10 3 None [''earlier line''] =
     (Inr (LinenModule (Instance VisionTransformer
             [(''num_classes'', PInt 10), (''hidden_size'', PInt 768),
              (''transformer'',
               PDict [(''num_layers'', PInt 2), (''mlp_dim'', PInt 3072), (''num_heads'', PInt 12)]),
              (''patches'', ConfigDict [(''size'', PTuple [PInt 16, PInt 16])])]),
           [0, 0, 2, 32, 32, 3]),
      [''earlier line'', ''type(init_state): <class Collection>'']) \<and>
   [''earlier line'', ''type(init_state): <class Collection>''] =
     [''earlier line''] @ [''type(init_state): '' @ type_str sample_framework [0, 0, 2, 32, 32, 3]] \<and>
   fst (get_model sample_framework ''VisionTransformer_mini'' 2 32 10 3 None []) =
     Inr (LinenModule (Instance VisionTransformer
             [(''num_classes'', PInt 10), (''hidden_size'', PInt 768),
              (''transformer'',
               PDict [(''num_layers'', PInt 2), (''mlp_dim'', PInt 3072), (''num_heads'', PInt 12)]),
              (''patches'', ConfigDict [(''size'', PTuple [PInt 16, PInt 16])])]),
           [0, 0, 2, 32, 32, 3])"
proof -
  have run: "get_model sample_framework ''VisionTransformer_mini'' 2 32 10 3 None [''earlier line''] =
     (Inr (LinenModule (Instance VisionTransformer
             [(''num_classes'', PInt 10), (''hidden_size'', PInt 768),
              (''transformer'',
               PDict [(''num_layers'', PInt 2), (''mlp_dim'', PInt 3072), (''num_heads'', PInt 12)]),
              (''patches'', ConfigDict [(''size'', PTuple [PInt 16, PInt 16])])]),
           [0, 0, 2, 32, 32, 3]),
      [''earlier line'', ''type(init_state): <class Collection>''])"
    by (simp add: get_model_def select_module_def default_prng_key_def create_vit_image_model_def
        sample_framework_def)
  show ?thesis
    using run get_model_prints_once [OF run, of "[]"] by simp
qed

end
